theory Spec2Isabelle
  imports Main
begin

section \<open>Python values and objects seen by the adapter\<close>

text \<open>
  The wrapped callable may return any Python object. The adapter observes a result in
  three ways only: \<^verbatim>\<open>isinstance(result, str)\<close>, the truth value of
  \<^verbatim>\<open>getattr(result, "__str__")\<close> and \<^verbatim>\<open>str(result)\<close>. Values are modelled as
  \<^verbatim>\<open>None\<close>, booleans, unbounded integers, strings, and instances of any other class,
  which carry what the \<^verbatim>\<open>__str__\<close> attribute of their class does: the class may set
  \<^verbatim>\<open>__str__ = None\<close>, or its \<^verbatim>\<open>__str__\<close> (own or inherited) returns a text or raises.
\<close>

datatype str_attr = StrNone | StrReturns string | StrRaises string

datatype pyval =
    PNone
  | PBool bool
  | PInt int
  | PStr string
  | PInst string str_attr

text \<open>
  Objects found in \<^verbatim>\<open>__annotations__\<close>: the classes \<^verbatim>\<open>str\<close>, \<^verbatim>\<open>int\<close>,
  \<^verbatim>\<open>float\<close>; any other class that is not an enumeration (\<^verbatim>\<open>bool\<close>, \<^verbatim>\<open>dict\<close>,
  \<^verbatim>\<open>list\<close>, user classes) by its name; a subclass of \<^verbatim>\<open>Enum\<close> with the name and
  value of each member that iterating the class yields, in definition order; a
  subscripted generic such as \<^verbatim>\<open>Literal["a", "b"]\<close> or \<^verbatim>\<open>List[int]\<close> with its origin
  and its \<^verbatim>\<open>__args__\<close>; and any object that is not a type (\<^verbatim>\<open>None\<close> in
  \<^verbatim>\<open>-> None\<close>, a forward reference written as a string, a literal's argument).
\<close>

datatype pyobj =
    Val pyval
  | TStr
  | TInt
  | TFloat
  | Class string
  | EnumClass string "(string \<times> pyval) list"
  | Alias string "pyobj list"

datatype pyexn =
    ValueError_unexpected_type pyobj
  | KeyError string
  | TypeError string
  | Raised string

text \<open>The objects a schema is built from: strings, \<^verbatim>\<open>None\<close>, lists and dicts.\<close>

datatype jval =
    JNone
  | JStr string
  | JList "pyobj list"
  | JDict "(string \<times> jval) list"

section \<open>Dictionaries\<close>

text \<open>
  A Python dict keeps its keys in insertion order, so it is an association list.
  Storing under a key that is present replaces the value where the key stands; a new
  key goes to the end.
\<close>

definition dict_contains :: "('k \<times> 'v) list \<Rightarrow> 'k \<Rightarrow> bool" where
  "dict_contains d k = (k \<in> set (map fst d))"

fun dict_setitem :: "('k \<times> 'v) list \<Rightarrow> 'k \<Rightarrow> 'v \<Rightarrow> ('k \<times> 'v) list" where
  "dict_setitem [] k v = [(k, v)]"
| "dict_setitem ((k', v') # d) k v =
     (if k' = k then (k, v) # d else (k', v') # dict_setitem d k v)"

definition dict_delitem :: "('k \<times> 'v) list \<Rightarrow> 'k \<Rightarrow> ('k \<times> 'v) list" where
  "dict_delitem d k = filter (\<lambda>kv. fst kv \<noteq> k) d"

definition dict_getitem :: "(string \<times> 'v) list \<Rightarrow> string \<Rightarrow> pyexn + 'v" where
  "dict_getitem d k = (case map_of d k of None \<Rightarrow> Inl (KeyError k) | Some v \<Rightarrow> Inr v)"

text \<open>\<^verbatim>\<open>d | e\<close> and \<^verbatim>\<open>d |= e\<close>: the entries of \<^verbatim>\<open>e\<close> stored into \<^verbatim>\<open>d\<close> in order.\<close>

definition dict_or :: "('k \<times> 'v) list \<Rightarrow> ('k \<times> 'v) list \<Rightarrow> ('k \<times> 'v) list" where
  "dict_or d e = fold (\<lambda>kv acc. dict_setitem acc (fst kv) (snd kv)) e d"

section \<open>The wrapped callable and the documentation parser's output\<close>

type_synonym pyargs = "pyval list \<times> (string \<times> pyval) list"

text \<open>
  A Python function object: \<^verbatim>\<open>__name__\<close>, \<^verbatim>\<open>__doc__\<close>, \<^verbatim>\<open>__annotations__\<close>, what
  calling it with positional and keyword arguments does (it returns or raises), and the
  names of its parameters in the order of the \<^verbatim>\<open>def\<close> statement, as
  \<^verbatim>\<open>inspect.signature\<close> lists them. The code never reads the last one: it sees the
  parameters through \<^verbatim>\<open>__annotations__\<close> only, whose keys the interpreter inserts.
\<close>

record pyfunc =
  dunder_name :: string
  dunder_doc :: "string option"
  dunder_annotations :: "(string \<times> pyobj) list"
  body :: "pyargs \<Rightarrow> pyexn + pyval"
  signature_parameters :: "string list"

text \<open>
  \<^verbatim>\<open>docstring_parser\<close> is a library outside this repository. The code reads
  \<^verbatim>\<open>short_description\<close> and \<^verbatim>\<open>params\<close> of what \<^verbatim>\<open>parse\<close> returns, and
  \<^verbatim>\<open>arg_name\<close> and \<^verbatim>\<open>description\<close> of each entry of \<^verbatim>\<open>params\<close>. The parser is a
  parameter \<open>parse\<close> of the model.
\<close>

record DocstringParam =
  arg_name :: string
  arg_description :: string

record Docstring =
  short_description :: "string option"
  params :: "DocstringParam list"

section \<open>GPTFunction\<close>

record FunctionParam =
  name :: string
  typing :: pyobj
  description :: string

record GPTFunction =
  func :: pyfunc

definition GPTFunction_init :: "pyfunc \<Rightarrow> GPTFunction" where
  "GPTFunction_init f = \<lparr>func = f\<rparr>"

definition gptfunction :: "pyfunc \<Rightarrow> GPTFunction" where
  "gptfunction f = GPTFunction_init f"

subsection \<open>Invocation\<close>

text \<open>Python's \<^verbatim>\<open>str\<close> of an integer: decimal digits, with a minus sign when negative.\<close>

fun str_nat :: "nat \<Rightarrow> string" where
  "str_nat n =
     (if n < 10 then [''0123456789'' ! n]
      else str_nat (n div 10) @ [''0123456789'' ! (n mod 10)])"

declare str_nat.simps [simp del]

definition str_int :: "int \<Rightarrow> string" where
  "str_int i = (if i < 0 then ''-'' @ str_nat (nat (- i)) else str_nat (nat i))"

text \<open>
  \<^verbatim>\<open>str(x)\<close> calls \<^verbatim>\<open>type(x).__str__(x)\<close>: it raises TypeError when the attribute is
  \<^verbatim>\<open>None\<close>, and what the method raises when it raises.
\<close>

fun py_str :: "pyval \<Rightarrow> pyexn + string" where
  "py_str PNone = Inr ''None''"
| "py_str (PBool b) = Inr (if b then ''True'' else ''False'')"
| "py_str (PInt i) = Inr (str_int i)"
| "py_str (PStr s) = Inr s"
| "py_str (PInst c StrNone) = Inl (TypeError ''NoneType object is not callable'')"
| "py_str (PInst c (StrReturns s)) = Inr s"
| "py_str (PInst c (StrRaises e)) = Inl (Raised e)"

text \<open>
  The truth value of \<^verbatim>\<open>getattr(result, "__str__")\<close>: a bound method is true,
  \<^verbatim>\<open>None\<close> is false.
\<close>

fun getattr_str :: "pyval \<Rightarrow> bool" where
  "getattr_str (PInst c StrNone) = False"
| "getattr_str _ = True"

text \<open>
  \<^verbatim>\<open>__call__\<close> (lines 56-66). An exception of the wrapped callable propagates.
  \<^verbatim>\<open>isinstance(result, str)\<close> holds of the strings, which are returned as they are.
\<close>

definition call :: "GPTFunction \<Rightarrow> pyargs \<Rightarrow> pyexn + string" where
  "call self args =
     (case body (func self) args of
        Inl e \<Rightarrow> Inl e
      | Inr result \<Rightarrow>
          (case result of
             PStr s \<Rightarrow> Inr s
           | _ \<Rightarrow> if getattr_str result then py_str result else Inr ''''))"

subsection \<open>Schema generation\<close>

text \<open>
  \<^verbatim>\<open>typing.get_args\<close>: the arguments of a subscripted generic, the empty tuple for
  anything else.
\<close>

fun get_args :: "pyobj \<Rightarrow> pyobj list" where
  "get_args (Alias origin args) = args"
| "get_args _ = []"

text \<open>\<^verbatim>\<open>isinstance(t, type) and issubclass(t, Enum)\<close>.\<close>

fun issubclass_Enum :: "pyobj \<Rightarrow> bool" where
  "issubclass_Enum (EnumClass n ms) = True"
| "issubclass_Enum _ = False"

text \<open>\<^verbatim>\<open>[e.value for e in t]\<close>.\<close>

fun enum_values :: "pyobj \<Rightarrow> pyobj list" where
  "enum_values (EnumClass n ms) = map (\<lambda>m. Val (snd m)) ms"
| "enum_values _ = []"

text \<open>\<^verbatim>\<open>_parse_param_type\<close> (lines 211-228), the branches in the source's order.\<close>

definition parse_param_type :: "pyobj \<Rightarrow> pyexn + (string \<times> jval) list" where
  "parse_param_type param_type =
     (if param_type = TStr then Inr [(''type'', JStr ''string'')]
      else if param_type = TInt then Inr [(''type'', JStr ''int'')]
      else if param_type = TFloat then Inr [(''type'', JStr ''float'')]
      else if get_args param_type \<noteq> [] then
        Inr [(''type'', JStr ''string''), (''enum'', JList (get_args param_type))]
      else if issubclass_Enum param_type then
        Inr [(''type'', JStr ''string''), (''enum'', JList (enum_values param_type))]
      else Inl (ValueError_unexpected_type param_type))"

text \<open>
  The loop of \<^verbatim>\<open>_parse_params\<close> (lines 168-172): \<open>schema_params\<close> is the dict built
  so far. An exception of \<^verbatim>\<open>_parse_param_type\<close> leaves the loop.
\<close>

fun parse_params_loop ::
  "FunctionParam list \<Rightarrow> (string \<times> jval) list \<Rightarrow> pyexn + (string \<times> jval) list" where
  "parse_params_loop [] schema_params = Inr schema_params"
| "parse_params_loop (param # rest) schema_params =
     (case parse_param_type (typing param) of
        Inl e \<Rightarrow> Inl e
      | Inr fragment \<Rightarrow>
          parse_params_loop rest
            (dict_or schema_params
               [(name param,
                 JDict (dict_or fragment [(''description'', JStr (description param))]))]))"

definition parse_params :: "FunctionParam list \<Rightarrow> pyexn + jval" where
  "parse_params ps =
     (case parse_params_loop ps [] of
        Inl e \<Rightarrow> Inl e
      | Inr schema_params \<Rightarrow>
          Inr (JDict [(''type'', JStr ''object''), (''properties'', JDict schema_params)]))"

text \<open>\<^verbatim>\<open>{p.arg_name: p for p in docstring_params}\<close> (line 142).\<close>

definition keyed_docstring_params ::
  "DocstringParam list \<Rightarrow> (string \<times> DocstringParam) list" where
  "keyed_docstring_params docstring_params =
     fold (\<lambda>p acc. dict_setitem acc (arg_name p) p) docstring_params []"

definition warning_message :: "string \<Rightarrow> string" where
  "warning_message key =
     ''Function param '' @ key @
     '' has no docstring description. Add a docstring description for more accurate use by GPT.''"

text \<open>
  The loop of \<^verbatim>\<open>_create_function_params\<close> (lines 145-156) over the keys of
  \<open>annotations\<close>, with the list built so far and the warnings logged so far.
\<close>

fun function_params_loop ::
  "string list \<Rightarrow> (string \<times> pyobj) list \<Rightarrow> (string \<times> DocstringParam) list \<Rightarrow>
   FunctionParam list \<Rightarrow> string list \<Rightarrow> (pyexn + FunctionParam list) \<times> string list" where
  "function_params_loop [] annotations keyed function_params log = (Inr function_params, log)"
| "function_params_loop (key # keys) annotations keyed function_params log =
     (if dict_contains keyed key then
        (case dict_getitem keyed key of
           Inl e \<Rightarrow> (Inl e, log)
         | Inr p \<Rightarrow>
             (case dict_getitem annotations key of
                Inl e \<Rightarrow> (Inl e, log)
              | Inr t \<Rightarrow>
                  function_params_loop keys annotations keyed
                    (function_params @ [\<lparr>name = key, typing = t, description = arg_description p\<rparr>])
                    log))
      else
        (case dict_getitem annotations key of
           Inl e \<Rightarrow> (Inl e, log @ [warning_message key])
         | Inr t \<Rightarrow>
             function_params_loop keys annotations keyed
               (function_params @ [\<lparr>name = key, typing = t, description = ''''\<rparr>])
               (log @ [warning_message key])))"

text \<open>
  \<^verbatim>\<open>_create_function_params\<close> (lines 139-158). \<^verbatim>\<open>del annotations["return"]\<close>
  writes to the dict it was given, so the dict after the call is part of the result,
  with the warnings logged.
\<close>

definition create_function_params ::
  "(string \<times> pyobj) list \<Rightarrow> DocstringParam list \<Rightarrow>
   (pyexn + FunctionParam list) \<times> (string \<times> pyobj) list \<times> string list" where
  "create_function_params annotations docstring_params =
     (let annotations' =
            (if dict_contains annotations ''return''
             then dict_delitem annotations ''return'' else annotations);
          keyed = keyed_docstring_params docstring_params;
          (r, log) = function_params_loop (map fst annotations') annotations' keyed [] []
      in (r, annotations', log))"

text \<open>
  \<^verbatim>\<open>schema\<close> (lines 68-84). \<^verbatim>\<open>self.func.__annotations__\<close> is the function's own
  dict, not a copy: what \<^verbatim>\<open>_create_function_params\<close> deletes from it is deleted from
  the wrapped function. The result comes with the adapter after the call and the
  warnings logged.
\<close>

definition schema ::
  "(string option \<Rightarrow> Docstring) \<Rightarrow> GPTFunction \<Rightarrow>
   (pyexn + jval) \<times> GPTFunction \<times> string list" where
  "schema parse self =
     (let docstring = parse (dunder_doc (func self));
          (r, annotations', log) =
            create_function_params (dunder_annotations (func self)) (params docstring);
          self' = self\<lparr>func := (func self)\<lparr>dunder_annotations := annotations'\<rparr>\<rparr>
      in (case r of
            Inl e \<Rightarrow> (Inl e, self', log)
          | Inr function_params \<Rightarrow>
              (case parse_params function_params of
                 Inl e \<Rightarrow> (Inl e, self', log)
               | Inr parameters \<Rightarrow>
                   (Inr (JDict
                      [(''type'', JStr ''function''),
                       (''function'', JDict
                          [(''name'', JStr (dunder_name (func self))),
                           (''description'',
                              (case short_description docstring of
                                 None \<Rightarrow> JNone | Some s \<Rightarrow> JStr s)),
                           (''parameters'', parameters)])]),
                    self', log))))"

definition GPTFunction_name :: "GPTFunction \<Rightarrow> string" where
  "GPTFunction_name self = dunder_name (func self)"

definition GPTFunction_description ::
  "(string option \<Rightarrow> Docstring) \<Rightarrow> GPTFunction \<Rightarrow> string option" where
  "GPTFunction_description parse self = short_description (parse (dunder_doc (func self)))"

subsection \<open>The operations of an adapter, as one step function\<close>

text \<open>
  \<^verbatim>\<open>name\<close>, \<^verbatim>\<open>description\<close> and \<^verbatim>\<open>__call__\<close> contain no assignment and no
  \<^verbatim>\<open>del\<close>: they return the adapter as it was. \<^verbatim>\<open>schema\<close> returns the adapter
  that \<open>schema\<close> above leaves.
\<close>

datatype operation = OpName | OpDescription | OpSchema | OpCall pyargs

datatype reply =
    NameIs string
  | DescriptionIs "string option"
  | SchemaIs "pyexn + jval"
  | CallIs "pyexn + string"

fun perform ::
  "(string option \<Rightarrow> Docstring) \<Rightarrow> operation \<Rightarrow> GPTFunction \<Rightarrow> reply \<times> GPTFunction" where
  "perform parse OpName self = (NameIs (GPTFunction_name self), self)"
| "perform parse OpDescription self = (DescriptionIs (GPTFunction_description parse self), self)"
| "perform parse OpSchema self = (SchemaIs (fst (schema parse self)), fst (snd (schema parse self)))"
| "perform parse (OpCall args) self = (CallIs (call self args), self)"

subsection \<open>Reading a descriptor\<close>

text \<open>\<^verbatim>\<open>d[k]\<close> on a schema object, and \<^verbatim>\<open>d["function"]["parameters"]["properties"]\<close>.\<close>

fun jget :: "jval \<Rightarrow> string \<Rightarrow> jval option" where
  "jget (JDict d) k = map_of d k"
| "jget _ k = None"

definition properties_of :: "jval \<Rightarrow> jval option" where
  "properties_of d =
     (case jget d ''function'' of
        None \<Rightarrow> None
      | Some f \<Rightarrow>
          (case jget f ''parameters'' of
             None \<Rightarrow> None
           | Some p \<Rightarrow> jget p ''properties''))"

text \<open>\<^verbatim>\<open>list(d["function"]["parameters"]["properties"])\<close>: the keys, in order.\<close>

definition property_names :: "jval \<Rightarrow> string list" where
  "property_names d =
     (case properties_of d of Some (JDict props) \<Rightarrow> map fst props | _ \<Rightarrow> [])"

subsection \<open>Sample callables and documentation\<close>

text \<open>\<^verbatim>\<open>def f(*args, **kwargs): return v\<close>.\<close>

definition returning :: "pyval \<Rightarrow> pyargs \<Rightarrow> pyexn + pyval" where
  "returning v args = Inr v"

text \<open>A parser's answer for a docstring with no description and no parameter entry.\<close>

definition no_docs :: "string option \<Rightarrow> Docstring" where
  "no_docs doc = \<lparr>short_description = None, params = []\<rparr>"

text \<open>
  A parser's answer for \<^verbatim>\<open>"""Does X\n\n:param b: B param\n:param a: A param\n"""\<close>:
  the entries in the order of the documentation.
\<close>

definition docs_b_a :: "string option \<Rightarrow> Docstring" where
  "docs_b_a doc =
     \<lparr>short_description = Some ''Does X'',
      params = [\<lparr>arg_name = ''b'', arg_description = ''B param''\<rparr>,
                \<lparr>arg_name = ''a'', arg_description = ''A param''\<rparr>]\<rparr>"

text \<open>\<^verbatim>\<open>def f(a: int, b: str) -> None\<close>.\<close>

definition f_a_b :: pyfunc where
  "f_a_b =
     \<lparr>dunder_name = ''f'', dunder_doc = Some ''Does X'',
      dunder_annotations = [(''a'', TInt), (''b'', TStr), (''return'', Val PNone)],
      body = returning PNone, signature_parameters = [''a'', ''b'']\<rparr>"

text \<open>
  \<^verbatim>\<open>def f(a: int, /, b: str) -> None\<close>, as CPython 3.11 builds it: the annotation of
  a positional-only parameter is inserted after those of the other parameters, so the
  keys of \<^verbatim>\<open>__annotations__\<close> are \<^verbatim>\<open>b, a, return\<close>, while the signature lists
  \<^verbatim>\<open>a, b\<close>.
\<close>

definition f_posonly :: pyfunc where
  "f_posonly =
     \<lparr>dunder_name = ''f'', dunder_doc = Some ''Does X'',
      dunder_annotations = [(''b'', TStr), (''a'', TInt), (''return'', Val PNone)],
      body = returning PNone, signature_parameters = [''a'', ''b'']\<rparr>"

section \<open>Dictionaries: keys and lookups\<close>

lemma dict_contains_iff: "dict_contains d k \<longleftrightarrow> map_of d k \<noteq> None"
  by (simp add: dict_contains_def map_of_eq_None_iff)



lemma map_of_dict_setitem: "map_of (dict_setitem d k v) = (map_of d)(k \<mapsto> v)"
  by (induction d) (auto simp: fun_eq_iff)




lemma function_params_loop_eq:
  "set keys \<subseteq> fst ` set anns \<Longrightarrow>
   function_params_loop keys anns keyed acc log =
     (Inr (acc @ map (\<lambda>k. \<lparr>name = k, typing = the (map_of anns k),
                        description = (case map_of keyed k of None \<Rightarrow> '''' | Some p \<Rightarrow> arg_description p)\<rparr>) keys),
      log @ map warning_message (filter (\<lambda>k. \<not> dict_contains keyed k) keys))"
proof (induction keys arbitrary: acc log)
  case Nil
  then show ?case by simp
next
  case (Cons key keys)
  from Cons.prems obtain t where t: "map_of anns key = Some t"
    by (cases "map_of anns key") (auto simp: map_of_eq_None_iff)
  from Cons.prems have sub: "set keys \<subseteq> fst ` set anns" by simp
  show ?case
  proof (cases "dict_contains keyed key")
    case True
    then obtain p where p: "map_of keyed key = Some p"
      by (auto simp: dict_contains_iff)
    show ?thesis
      using True p t Cons.IH [OF sub] by (simp add: dict_getitem_def)
  next
    case False
    then have p: "map_of keyed key = None"
      by (simp add: dict_contains_iff)
    show ?thesis
      using False p t Cons.IH [OF sub] by (simp add: dict_getitem_def)
  qed
qed

section \<open>The extractor and the assembler, in closed form\<close>

lemma delete_return:
  "(if dict_contains a ''return'' then dict_delitem a ''return'' else a) =
     filter (\<lambda>kv. fst kv \<noteq> ''return'') a"
proof (cases "dict_contains a ''return''")
  case True
  then show ?thesis by (simp add: dict_delitem_def)
next
  case False
  then have "\<forall>kv\<in>set a. fst kv \<noteq> ''return''"
    by (force simp: dict_contains_def)
  then have "filter (\<lambda>kv. fst kv \<noteq> ''return'') a = a"
    by (rule filter_True)
  with False show ?thesis by simp
qed

lemma create_function_params_eq:
  "create_function_params anns docs =
     (Inr (map (\<lambda>k. \<lparr>name = k,
                      typing = the (map_of (filter (\<lambda>kv. fst kv \<noteq> ''return'') anns) k),
                      description =
                        (case map_of (keyed_docstring_params docs) k of
                           None \<Rightarrow> '''' | Some p \<Rightarrow> arg_description p)\<rparr>)
            (map fst (filter (\<lambda>kv. fst kv \<noteq> ''return'') anns))),
      filter (\<lambda>kv. fst kv \<noteq> ''return'') anns,
      map warning_message
        (filter (\<lambda>k. \<not> dict_contains (keyed_docstring_params docs) k)
           (map fst (filter (\<lambda>kv. fst kv \<noteq> ''return'') anns))))"
  unfolding create_function_params_def delete_return Let_def
  by (simp add: function_params_loop_eq)

lemma lookup_own_keys:
  "distinct (map fst xs) \<Longrightarrow> map (\<lambda>k. (k, the (map_of xs k))) (map fst xs) = xs"
proof -
  assume d: "distinct (map fst xs)"
  have "map (\<lambda>kv. (fst kv, the (map_of xs (fst kv)))) xs = xs"
  proof (rule map_idI)
    fix kv assume "kv \<in> set xs"
    then have "(fst kv, snd kv) \<in> set xs" by simp
    then have "map_of xs (fst kv) = Some (snd kv)"
      by (rule map_of_is_SomeI [OF d])
    then show "(fst kv, the (map_of xs (fst kv))) = kv" by simp
  qed
  then show ?thesis by (simp add: comp_def)
qed



lemma schema_eq:
  "schema parse self =
     (let anns = filter (\<lambda>kv. fst kv \<noteq> ''return'') (dunder_annotations (func self));
          docstring = parse (dunder_doc (func self));
          keyed = keyed_docstring_params (params docstring);
          ps = map (\<lambda>k. \<lparr>name = k, typing = the (map_of anns k),
                          description =
                            (case map_of keyed k of None \<Rightarrow> '''' | Some p \<Rightarrow> arg_description p)\<rparr>)
                 (map fst anns);
          log = map warning_message (filter (\<lambda>k. \<not> dict_contains keyed k) (map fst anns));
          self' = self\<lparr>func := (func self)\<lparr>dunder_annotations := anns\<rparr>\<rparr>
      in (case parse_params_loop ps [] of
            Inl e \<Rightarrow> (Inl e, self', log)
          | Inr schema_params \<Rightarrow>
              (Inr (JDict
                 [(''type'', JStr ''function''),
                  (''function'', JDict
                     [(''name'', JStr (dunder_name (func self))),
                      (''description'',
                         (case short_description docstring of None \<Rightarrow> JNone | Some s \<Rightarrow> JStr s)),
                      (''parameters'',
                         JDict [(''type'', JStr ''object''),
                                (''properties'', JDict schema_params)])])]),
               self', log)))"
  unfolding schema_def create_function_params_eq parse_params_def Let_def
  by (simp split: sum.splits)

lemma parse_params_loop_error:
  "parse_params_loop ps acc = Inl e \<Longrightarrow>
   \<exists>p\<in>set ps. e = ValueError_unexpected_type (typing p) \<and> parse_param_type (typing p) = Inl e"
proof (induction ps arbitrary: acc)
  case Nil
  then show ?case by simp
next
  case (Cons p ps)
  show ?case
  proof (cases "parse_param_type (typing p)")
    case (Inl e')
    with Cons.prems have "e' = e" by simp
    moreover from Inl have "e' = ValueError_unexpected_type (typing p)"
      by (auto simp: parse_param_type_def split: if_splits)
    ultimately show ?thesis using Inl by auto
  next
    case (Inr frag)
    with Cons.prems Cons.IH show ?thesis by auto
  qed
qed

lemma schema_error:
  assumes "schema parse self = (Inl e, self', log)"
  shows "\<exists>k t. (k, t) \<in> set (dunder_annotations (func self)) \<and> k \<noteq> ''return'' \<and>
           e = ValueError_unexpected_type t \<and> parse_param_type t = Inl e"
proof -
  let ?anns = "filter (\<lambda>kv. fst kv \<noteq> ''return'') (dunder_annotations (func self))"
  let ?keyed = "keyed_docstring_params (params (parse (dunder_doc (func self))))"
  let ?ps = "map (\<lambda>k. \<lparr>name = k, typing = the (map_of ?anns k),
                      description =
                        (case map_of ?keyed k of None \<Rightarrow> '''' | Some p \<Rightarrow> arg_description p)\<rparr>)
              (map fst ?anns)"
  from assms have "parse_params_loop ?ps [] = Inl e"
    unfolding schema_eq Let_def by (cases "parse_params_loop ?ps []") auto
  from parse_params_loop_error [OF this] obtain p where p: "p \<in> set ?ps"
    and e: "e = ValueError_unexpected_type (typing p)" "parse_param_type (typing p) = Inl e"
    by blast
  from p obtain k where k: "k \<in> fst ` set ?anns" and t: "typing p = the (map_of ?anns k)"
    by force
  from k obtain t' where "map_of ?anns k = Some t'"
    by (cases "map_of ?anns k") (auto simp: map_of_eq_None_iff)
  with t have "(k, typing p) \<in> set ?anns"
    by (auto dest: map_of_SomeD)
  then have "(k, typing p) \<in> set (dunder_annotations (func self))" and "k \<noteq> ''return''"
    by auto
  with e show ?thesis by blast
qed

section \<open>Evaluation on concrete inputs\<close>

lemmas eval_defs =
  schema_def create_function_params_def keyed_docstring_params_def
  dict_contains_def dict_getitem_def dict_delitem_def dict_or_def parse_params_def
  parse_param_type_def gptfunction_def GPTFunction_init_def docs_b_a_def f_a_b_def no_docs_def
  properties_of_def property_names_def call_def returning_def warning_message_def
  f_posonly_def

section \<open>The invocation adapter\<close>

text \<open>
  Claim C1: when the wrapped callable returns \<^verbatim>\<open>None\<close>, the adapter returns the
  empty string, and the coercion does not raise.

  The code does not do this. \<^verbatim>\<open>None\<close> is not a \<^verbatim>\<open>str\<close>, and
  \<^verbatim>\<open>getattr(None, "__str__")\<close> is a bound method, which is true, so line 64 returns
  \<^verbatim>\<open>str(None)\<close>: the adapter of \<^verbatim>\<open>def f(*args, **kwargs): return None\<close> answers
  \<^verbatim>\<open>"None"\<close>. The final \<^verbatim>\<open>return ""\<close> of line 66 is reached only by an object
  whose class sets \<^verbatim>\<open>__str__\<close> to a false value.
\<close>

theorem call_returning_None:
  "call (gptfunction \<lparr>dunder_name = ''f'', dunder_doc = None, dunder_annotations = [],
                      body = returning PNone,
                      signature_parameters = [''args'', ''kwargs'']\<rparr>) ([], []) =
     Inr ''None''"
  by (simp add: call_def gptfunction_def GPTFunction_init_def returning_def)

text \<open>
  Claim C8: a result that is already a string is returned unchanged, and a result that
  is not a string and has a textual representation \<open>t\<close> is returned as \<open>t\<close>; a
  callable returning the integer 5 yields \<^verbatim>\<open>"5"\<close>.
\<close>

theorem call_coerces:
  "(body (func self) args = Inr (PStr s) \<longrightarrow> call self args = Inr s) \<and>
   (body (func self) args = Inr v \<and> (\<forall>s'. v \<noteq> PStr s') \<and> py_str v = Inr t \<longrightarrow>
      call self args = Inr t) \<and>
   (body (func self) args = Inr (PInt 5) \<longrightarrow> call self args = Inr ''5'')"
proof (intro conjI impI)
  assume "body (func self) args = Inr (PStr s)"
  then show "call self args = Inr s" by (simp add: call_def)
next
  assume a: "body (func self) args = Inr v \<and> (\<forall>s'. v \<noteq> PStr s') \<and> py_str v = Inr t"
  then have "getattr_str v" by (cases v rule: getattr_str.cases) auto
  with a show "call self args = Inr t"
    by (cases v) (simp_all add: call_def)
next
  assume "body (func self) args = Inr (PInt 5)"
  then show "call self args = Inr ''5''"
    by (simp add: call_def str_int_def str_nat.simps)
qed

text \<open>
  The three parts at callables returning \<^verbatim>\<open>"done"\<close>, \<^verbatim>\<open>5\<close> and \<^verbatim>\<open>True\<close>.
\<close>

theorem call_coerces_witness:
  "call (gptfunction (f_a_b\<lparr>body := returning (PStr ''done'')\<rparr>)) ([PInt 1, PStr ''r''], []) =
     Inr ''done'' \<and>
   call (gptfunction (f_a_b\<lparr>body := returning (PInt 5)\<rparr>)) ([PInt 1, PStr ''r''], []) =
     Inr ''5'' \<and>
   call (gptfunction (f_a_b\<lparr>body := returning (PBool True)\<rparr>)) ([PInt 1, PStr ''r''], []) =
     Inr ''True''"
  using call_coerces [of "gptfunction (f_a_b\<lparr>body := returning (PStr ''done'')\<rparr>)"
      "([PInt 1, PStr ''r''], [])" "''done''" "PNone" "''''"]
    call_coerces [of "gptfunction (f_a_b\<lparr>body := returning (PInt 5)\<rparr>)"
      "([PInt 1, PStr ''r''], [])" "''''" "PInt 5" "''5''"]
    call_coerces [of "gptfunction (f_a_b\<lparr>body := returning (PBool True)\<rparr>)"
      "([PInt 1, PStr ''r''], [])" "''''" "PBool True" "''True''"]
  by (simp add: gptfunction_def GPTFunction_init_def returning_def f_a_b_def)

section \<open>The type mapper\<close>

text \<open>
  Claim C5: \<^verbatim>\<open>str\<close> maps to \<^verbatim>\<open>{"type": "string"}\<close>, \<^verbatim>\<open>int\<close> to
  \<^verbatim>\<open>{"type": "int"}\<close>, \<^verbatim>\<open>float\<close> to \<^verbatim>\<open>{"type": "float"}\<close>, and an
  enumerated-string type with the ordered, non-empty value list \<open>vs\<close> to
  \<^verbatim>\<open>{"type": "string", "enum": vs}\<close>, whether it is written as a \<^verbatim>\<open>Literal\<close> of
  the strings \<open>vs\<close> or as an enumeration whose members' values are the strings
  \<open>vs\<close>.
\<close>

theorem parse_param_type_supported:
  "parse_param_type TStr = Inr [(''type'', JStr ''string'')] \<and>
   parse_param_type TInt = Inr [(''type'', JStr ''int'')] \<and>
   parse_param_type TFloat = Inr [(''type'', JStr ''float'')] \<and>
   (vs \<noteq> [] \<longrightarrow>
      parse_param_type (Alias ''Literal'' (map (\<lambda>s. Val (PStr s)) vs)) =
        Inr [(''type'', JStr ''string''), (''enum'', JList (map (\<lambda>s. Val (PStr s)) vs))]) \<and>
   (map snd ms = map PStr vs \<longrightarrow>
      parse_param_type (EnumClass n ms) =
        Inr [(''type'', JStr ''string''), (''enum'', JList (map (\<lambda>s. Val (PStr s)) vs))])"
proof -
  have "map snd ms = map PStr vs \<Longrightarrow> map (\<lambda>m. Val (snd m)) ms = map (\<lambda>s. Val (PStr s)) vs"
  proof -
    assume "map snd ms = map PStr vs"
    then have "map Val (map snd ms) = map Val (map PStr vs)" by simp
    then show ?thesis by (simp add: comp_def)
  qed
  then show ?thesis by (simp add: parse_param_type_def)
qed

text \<open>
  \<^verbatim>\<open>Literal["one", "two"]\<close> and \<^verbatim>\<open>class Number(Enum): ONE = "one"; TWO = "two"\<close>.
\<close>

theorem parse_param_type_supported_witness:
  "parse_param_type (Alias ''Literal'' [Val (PStr ''one''), Val (PStr ''two'')]) =
     Inr [(''type'', JStr ''string''), (''enum'', JList [Val (PStr ''one''), Val (PStr ''two'')])] \<and>
   parse_param_type (EnumClass ''Number'' [(''ONE'', PStr ''one''), (''TWO'', PStr ''two'')]) =
     Inr [(''type'', JStr ''string''), (''enum'', JList [Val (PStr ''one''), Val (PStr ''two'')])]"
  using parse_param_type_supported [of "[''one'', ''two'']"
      "[(''ONE'', PStr ''one''), (''TWO'', PStr ''two'')]" "''Number''"]
  by simp

text \<open>
  Claim C9: every enumerated-string type that reaches the assembler has a non-empty
  value list, and the emitted \<^verbatim>\<open>enum\<close> list keeps the declared order.

  The code breaks the first half. Line 223 accepts every subclass of \<^verbatim>\<open>Enum\<close>,
  also one with no member, and line 224 then emits an empty \<^verbatim>\<open>enum\<close> list, which
  \<^verbatim>\<open>_parse_params\<close> puts into the properties. The sibling path of line 220 takes a
  subscripted type only when its argument list is not empty. At
  \<^verbatim>\<open>class Empty(Enum): pass\<close> and \<^verbatim>\<open>def f(x: Empty)\<close>:
\<close>

theorem empty_enum_accepted:
  "parse_param_type (EnumClass ''Empty'' []) =
     Inr [(''type'', JStr ''string''), (''enum'', JList [])] \<and>
   parse_params [\<lparr>name = ''x'', typing = EnumClass ''Empty'' [], description = ''''\<rparr>] =
     Inr (JDict
       [(''type'', JStr ''object''),
        (''properties'', JDict
           [(''x'', JDict [(''type'', JStr ''string''),
                           (''enum'', JList []),
                           (''description'', JStr '''')])])])"
  by (simp add: parse_params_def parse_param_type_def dict_or_def)

section \<open>The parameter extractor\<close>

text \<open>
  Claim C7: the extractor returns exactly one record per entry of the annotation map
  other than \<^verbatim>\<open>"return"\<close>, in the map's order and with the entry's type. So the
  \<^verbatim>\<open>"return"\<close> entry gives no record; a name with no entry in the map (a parameter
  declared without a type, or a name that only the documentation mentions) gives no
  record, no error and no warning.
\<close>

theorem create_function_params_records:
  assumes "distinct (map fst annotations)"
  shows "\<exists>ps log.
           create_function_params annotations docstring_params =
             (Inr ps, filter (\<lambda>kv. fst kv \<noteq> ''return'') annotations, log) \<and>
           map (\<lambda>p. (name p, typing p)) ps =
             filter (\<lambda>kv. fst kv \<noteq> ''return'') annotations \<and>
           ''return'' \<notin> name ` set ps \<and>
           (\<forall>k. k \<notin> fst ` set annotations \<longrightarrow> k \<notin> name ` set ps) \<and>
           set log \<subseteq> warning_message ` fst ` set annotations"
proof -
  let ?anns = "filter (\<lambda>kv. fst kv \<noteq> ''return'') annotations"
  let ?ps = "map (\<lambda>k. \<lparr>name = k, typing = the (map_of ?anns k),
                      description =
                        (case map_of (keyed_docstring_params docstring_params) k of
                           None \<Rightarrow> '''' | Some p \<Rightarrow> arg_description p)\<rparr>) (map fst ?anns)"
  let ?log = "map warning_message
        (filter (\<lambda>k. \<not> dict_contains (keyed_docstring_params docstring_params) k)
           (map fst ?anns))"
  have run: "create_function_params annotations docstring_params = (Inr ?ps, ?anns, ?log)"
    by (rule create_function_params_eq)
  from assms have d: "distinct (map fst ?anns)"
    by (rule distinct_map_filter)
  have "map (\<lambda>p. (name p, typing p)) ?ps = map (\<lambda>k. (k, the (map_of ?anns k))) (map fst ?anns)"
    by (simp add: comp_def)
  also have "\<dots> = ?anns"
    using d by (rule lookup_own_keys)
  finally have recs: "map (\<lambda>p. (name p, typing p)) ?ps = ?anns" .
  have names: "name ` set ?ps = fst ` set ?anns"
    by (force simp: image_iff)
  have r: "''return'' \<notin> name ` set ?ps"
    unfolding names by auto
  have k: "\<forall>k. k \<notin> fst ` set annotations \<longrightarrow> k \<notin> name ` set ?ps"
    unfolding names by auto
  have l: "set ?log \<subseteq> warning_message ` fst ` set annotations"
    by auto
  from run recs r k l show ?thesis by blast
qed

text \<open>
  \<^verbatim>\<open>def f(a: int, untyped) -> None\<close>, documented with an entry for \<^verbatim>\<open>c\<close>.
\<close>

theorem create_function_params_records_witness:
  "\<exists>ps log.
     create_function_params [(''a'', TInt), (''return'', Val PNone)]
       [\<lparr>arg_name = ''c'', arg_description = ''not a parameter''\<rparr>] =
       (Inr ps, [(''a'', TInt)], log) \<and>
     map (\<lambda>p. (name p, typing p)) ps = [(''a'', TInt)] \<and>
     ''return'' \<notin> name ` set ps \<and> ''c'' \<notin> name ` set ps"
proof -
  have dist: "distinct (map fst [(''a'', TInt), (''return'', Val PNone)])"
    by simp
  from create_function_params_records [OF dist,
      of "[\<lparr>arg_name = ''c'', arg_description = ''not a parameter''\<rparr>]"]
  obtain ps log where
    "create_function_params [(''a'', TInt), (''return'', Val PNone)]
       [\<lparr>arg_name = ''c'', arg_description = ''not a parameter''\<rparr>] =
       (Inr ps, filter (\<lambda>kv. fst kv \<noteq> ''return'') [(''a'', TInt), (''return'', Val PNone)], log)"
    and "map (\<lambda>p. (name p, typing p)) ps =
       filter (\<lambda>kv. fst kv \<noteq> ''return'') [(''a'', TInt), (''return'', Val PNone)]"
    and "''return'' \<notin> name ` set ps"
    and "\<forall>k. k \<notin> fst ` set [(''a'', TInt), (''return'', Val PNone)] \<longrightarrow> k \<notin> name ` set ps"
    by blast
  then show ?thesis by simp
qed



section \<open>Schema generation\<close>

text \<open>
  Claim C2: \<^verbatim>\<open>schema\<close> fails with the unsupported-type error if and only if some
  declared parameter's type is outside string, integer, float and enumerated-string;
  then no descriptor is produced and the error names the offending type.

  One direction holds (\<open>schema_error\<close> above: a failure is the error of
  \<^verbatim>\<open>_parse_param_type\<close> for a declared parameter, and carries its type). The other
  does not: line 220 takes every subscripted type for a \<^verbatim>\<open>Literal\<close>, so
  \<^verbatim>\<open>def f(x: List[int])\<close> gets a descriptor whose \<^verbatim>\<open>enum\<close> list holds the class
  \<^verbatim>\<open>int\<close>.
\<close>

theorem schema_accepts_list_of_int:
  "fst (schema no_docs
         (gptfunction \<lparr>dunder_name = ''f'', dunder_doc = None,
                        dunder_annotations = [(''x'', Alias ''list'' [TInt])],
                        body = returning PNone, signature_parameters = [''x'']\<rparr>)) =
     Inr (JDict
       [(''type'', JStr ''function''),
        (''function'', JDict
           [(''name'', JStr ''f''),
            (''description'', JNone),
            (''parameters'', JDict
               [(''type'', JStr ''object''),
                (''properties'', JDict
                   [(''x'', JDict [(''type'', JStr ''string''),
                                   (''enum'', JList [TInt]),
                                   (''description'', JStr '''')])])])])])"
  by (simp add: schema_def create_function_params_def keyed_docstring_params_def
      dict_contains_def dict_getitem_def dict_or_def parse_params_def parse_param_type_def
      gptfunction_def GPTFunction_init_def no_docs_def)




text \<open>
  Claim C10: when \<^verbatim>\<open>schema\<close> succeeds, calling it again on the adapter it left
  returns the same descriptor (and the same warnings, and leaves the adapter as it
  is).
\<close>

theorem schema_idempotent:
  assumes "schema parse self = (Inr d, self', log)"
  shows "schema parse self' = (Inr d, self', log)"
proof -
  let ?anns = "filter (\<lambda>kv. fst kv \<noteq> ''return'') (dunder_annotations (func self))"
  from assms have s: "self' = self\<lparr>func := (func self)\<lparr>dunder_annotations := ?anns\<rparr>\<rparr>"
    unfolding schema_eq Let_def by (auto split: sum.splits)
  have "schema parse (self\<lparr>func := (func self)\<lparr>dunder_annotations := ?anns\<rparr>\<rparr>) = schema parse self"
    unfolding schema_eq Let_def by (simp cong: sum.case_cong)
  with assms s show ?thesis by simp
qed

text \<open>
  \<^verbatim>\<open>def f(a: int, b: str) -> None\<close>, whose \<^verbatim>\<open>"return"\<close> entry the first call
  removes.
\<close>

theorem schema_idempotent_witness:
  "\<exists>d self' log.
     schema docs_b_a (gptfunction f_a_b) = (Inr d, self', log) \<and>
     schema docs_b_a self' = (Inr d, self', log)"
proof -
  obtain d self' log where run: "schema docs_b_a (gptfunction f_a_b) = (Inr d, self', log)"
    by (simp add: eval_defs)
  from schema_idempotent [OF run] run show ?thesis by blast
qed

text \<open>
  Claim C3: no operation of the adapter changes the wrapped callable or its metadata;
  the annotation map is the same before and after every \<^verbatim>\<open>schema\<close> call.

  As amended: construction keeps the callable; \<^verbatim>\<open>name\<close>, \<^verbatim>\<open>description\<close> and
  invocation leave it unchanged; \<^verbatim>\<open>schema\<close> leaves its name, docstring and
  behaviour unchanged and removes the \<^verbatim>\<open>"return"\<close> entry from its annotation map,
  keeping every other entry in place; when the map has no \<^verbatim>\<open>"return"\<close> entry, no
  operation changes anything.
\<close>

theorem operations_frame:
  "func (GPTFunction_init f) = f \<and>
   func (snd (perform parse op self)) =
     (if op = OpSchema
      then (func self)\<lparr>dunder_annotations :=
             filter (\<lambda>kv. fst kv \<noteq> ''return'') (dunder_annotations (func self))\<rparr>
      else func self) \<and>
   (''return'' \<notin> fst ` set (dunder_annotations (func self)) \<longrightarrow>
      snd (perform parse op self) = self)"
proof -
  let ?anns = "filter (\<lambda>kv. fst kv \<noteq> ''return'') (dunder_annotations (func self))"
  have s: "fst (snd (schema parse self)) = self\<lparr>func := (func self)\<lparr>dunder_annotations := ?anns\<rparr>\<rparr>"
    unfolding schema_eq Let_def by (simp split: sum.splits)
  have same: "''return'' \<notin> fst ` set (dunder_annotations (func self)) \<Longrightarrow>
      ?anns = dunder_annotations (func self)"
    by (rule filter_True) force
  show ?thesis
    by (cases op) (simp_all add: s same GPTFunction_init_def)
qed

text \<open>
  \<^verbatim>\<open>def f(a: int, b: str) -> None\<close>: after \<^verbatim>\<open>schema\<close>, after a call, and
  \<^verbatim>\<open>schema\<close> on the same function without a return annotation.
\<close>

theorem operations_frame_witness:
  "func (GPTFunction_init f_a_b) = f_a_b \<and>
   func (snd (perform docs_b_a OpSchema (gptfunction f_a_b))) =
     f_a_b\<lparr>dunder_annotations := [(''a'', TInt), (''b'', TStr)]\<rparr> \<and>
   snd (perform docs_b_a (OpCall ([PInt 1, PStr ''r''], [])) (gptfunction f_a_b)) =
     gptfunction f_a_b \<and>
   snd (perform docs_b_a OpSchema
          (gptfunction (f_a_b\<lparr>dunder_annotations := [(''a'', TInt), (''b'', TStr)]\<rparr>))) =
     gptfunction (f_a_b\<lparr>dunder_annotations := [(''a'', TInt), (''b'', TStr)]\<rparr>)"
  using operations_frame [of f_a_b docs_b_a OpSchema "gptfunction f_a_b"]
    operations_frame [of f_a_b docs_b_a "OpCall ([PInt 1, PStr ''r''], [])" "gptfunction f_a_b"]
    operations_frame [of f_a_b docs_b_a OpSchema
      "gptfunction (f_a_b\<lparr>dunder_annotations := [(''a'', TInt), (''b'', TStr)]\<rparr>)"]
  by (simp add: gptfunction_def GPTFunction_init_def f_a_b_def)

text \<open>
  The claim as stated fails at \<^verbatim>\<open>def f(a: int, b: str) -> None\<close>: line 140 deletes
  the \<^verbatim>\<open>"return"\<close> entry from the function's own \<^verbatim>\<open>__annotations__\<close>.
\<close>

theorem schema_deletes_return_counterexample:
  "dunder_annotations (func (gptfunction f_a_b)) =
     [(''a'', TInt), (''b'', TStr), (''return'', Val PNone)] \<and>
   dunder_annotations (func (snd (perform docs_b_a OpSchema (gptfunction f_a_b)))) =
     [(''a'', TInt), (''b'', TStr)]"
  by (simp add: schema_def create_function_params_def keyed_docstring_params_def
      dict_contains_def dict_getitem_def dict_delitem_def dict_or_def parse_params_def
      parse_param_type_def gptfunction_def GPTFunction_init_def docs_b_a_def f_a_b_def)

end
